theory Spec2Isabelle
  imports Main
begin

section \<open>Values of the JavaScript program\<close>

text \<open>
  \<^verbatim>\<open>syncStripe.js\<close> reads records delivered by the catalog provider's client and writes
  rows through the persistence client. A field of a provider record is either missing
  (reading it gives \<^verbatim>\<open>undefined\<close>), \<^verbatim>\<open>null\<close>, or a value of the type the provider
  documents for it.
\<close>

datatype 'a opt = Undefined | Null | Val 'a

text \<open>Opaque structured values (metadata, the recurring descriptor) are passed through unread.\<close>

datatype json = JNull | JBool bool | JNum int | JStr string
  | JArr "json list" | JObj "(string \<times> json) list"

text \<open>
  Errors thrown inside the program: \<^verbatim>\<open>new Error(msg)\<close>, the \<^verbatim>\<open>TypeError\<close> of a property
  read on \<^verbatim>\<open>undefined\<close> or \<^verbatim>\<open>null\<close>, and the errors raised by the two external clients.
\<close>

datatype error = Error string | TypeError string | StripeError string | PrismaError string

text \<open>
  \<^verbatim>\<open>new Date(ms)\<close>: a time value is valid up to 8.64e15 milliseconds on either side of the
  epoch, otherwise the date is invalid. Numbers are integers here (epoch seconds and
  amounts in minor units are), exact in JavaScript below \<open>2 ^ 53\<close>.
\<close>

datatype date = Date int | InvalidDate

definition new_Date :: "int \<Rightarrow> date" where
  "new_Date ms = (if \<bar>ms\<bar> \<le> 8640000000000000 then Date ms else InvalidDate)"

subsection \<open>Truthiness, \<^verbatim>\<open>||\<close> and \<^verbatim>\<open>toString\<close>\<close>

text \<open>
  \<^verbatim>\<open>undefined\<close> and \<^verbatim>\<open>null\<close> are falsy; so are the number \<^verbatim>\<open>0\<close> and the empty string.
  Arrays are always truthy.
\<close>

fun truthy_number :: "int opt \<Rightarrow> bool" where
  "truthy_number (Val n) = (n \<noteq> 0)"
| "truthy_number _ = False"

fun truthy_string :: "string opt \<Rightarrow> bool" where
  "truthy_string (Val s) = (s \<noteq> [])"
| "truthy_string _ = False"

fun truthy_array :: "'a list opt \<Rightarrow> bool" where
  "truthy_array (Val xs) = True"
| "truthy_array _ = False"

text \<open>\<^verbatim>\<open>x || dflt\<close> at a string and at an array: \<^verbatim>\<open>x\<close> when it is truthy, else \<^verbatim>\<open>dflt\<close>.\<close>

definition or_string :: "string opt \<Rightarrow> string \<Rightarrow> string" where
  "or_string x dflt = (if truthy_string x then (case x of Val s \<Rightarrow> s | _ \<Rightarrow> dflt) else dflt)"

definition or_array :: "'a list opt \<Rightarrow> 'a list \<Rightarrow> 'a list" where
  "or_array x dflt = (if truthy_array x then (case x of Val xs \<Rightarrow> xs | _ \<Rightarrow> dflt) else dflt)"

text \<open>
  \<^verbatim>\<open>Number.prototype.toString\<close> on an integer: the decimal digits, with a leading minus
  sign. JavaScript prints exactly these digits for an integer it represents exactly and
  whose magnitude is below \<open>10 ^ 21\<close>; beyond that it rounds or prints an exponent, which
  this function does not reproduce.
\<close>

function string_of_nat :: "nat \<Rightarrow> string" where
  "string_of_nat n =
     (if n < 10 then [''0123456789'' ! n]
      else string_of_nat (n div 10) @ [''0123456789'' ! (n mod 10)])"
  by pat_completeness auto
termination
  by (relation "measure (\<lambda>n. n)") auto

declare string_of_nat.simps [simp del]

definition Number_toString :: "int \<Rightarrow> string" where
  "Number_toString n =
     (if n < 0 then ''-'' @ string_of_nat (nat (- n)) else string_of_nat (nat n))"

definition String_toString :: "string \<Rightarrow> string" where
  "String_toString s = s"

text \<open>
  \<^verbatim>\<open>x.length\<close> on a field that holds an array: reading a property of \<^verbatim>\<open>undefined\<close> or
  \<^verbatim>\<open>null\<close> throws a \<^verbatim>\<open>TypeError\<close>.
\<close>

fun array_length :: "'a list opt \<Rightarrow> error + nat" where
  "array_length (Val xs) = Inr (length xs)"
| "array_length Undefined = Inl (TypeError ''Cannot read properties of undefined (reading 'length')'')"
| "array_length Null = Inl (TypeError ''Cannot read properties of null (reading 'length')'')"

section \<open>Provider records and destination rows\<close>

text \<open>A feature object of a product; only its \<^verbatim>\<open>name\<close> is read.\<close>

record feature =
  feature_name :: string

text \<open>The fields of a fetched product that \<^verbatim>\<open>seedProducts\<close> reads.\<close>

record product =
  product_id :: string
  product_description :: "string opt"
  product_features :: "feature list opt"
  product_images :: "string list opt"
  product_metadata :: json
  product_name :: string
  product_unit_label :: "string opt"
  product_created :: int

text \<open>
  The fields of a fetched price that \<^verbatim>\<open>seedPrices\<close> reads. The two amounts are the
  optional numbers of the data model; a provider that delivers an object as
  \<^verbatim>\<open>custom_unit_amount\<close> has the conversion of that object stored, which is outside this
  model.
\<close>

record price =
  price_id :: string
  price_billing_scheme :: string
  price_created :: int
  price_currency :: string
  price_custom_unit_amount :: "int opt"
  price_livemode :: bool
  price_lookup_key :: "string opt"
  price_metadata :: json
  price_nickname :: "string opt"
  price_product :: string
  price_recurring :: "json opt"
  price_tiers_mode :: "string opt"
  price_type :: string
  price_unit_amount :: "int opt"
  price_unit_amount_decimal :: "string opt"

text \<open>The \<^verbatim>\<open>data\<close> object handed to \<^verbatim>\<open>prisma.stripeProduct.create\<close>.\<close>

record dbproduct =
  dbproduct_id :: string
  dbproduct_description :: string
  dbproduct_features :: "string list"
  dbproduct_image :: string
  dbproduct_metadata :: json
  dbproduct_name :: string
  dbproduct_unitLabel :: "string opt"
  dbproduct_created :: date

text \<open>The \<^verbatim>\<open>data\<close> object handed to \<^verbatim>\<open>prisma.stripePrice.create\<close>.\<close>

record dbprice =
  dbprice_id :: string
  dbprice_billingScheme :: string
  dbprice_created :: date
  dbprice_currency :: string
  dbprice_customUnitAmount :: "string opt"
  dbprice_livemode :: bool
  dbprice_lookupKey :: "string opt"
  dbprice_metadata :: json
  dbprice_nickname :: "string opt"
  dbprice_productId :: string
  dbprice_recurring :: "json opt"
  dbprice_tiersMode :: "string opt"
  dbprice_type :: string
  dbprice_unitAmount :: "string opt"
  dbprice_unitAmountDecimal :: "string opt"

subsection \<open>The object literals of \<^verbatim>\<open>seedProducts\<close> and \<^verbatim>\<open>seedPrices\<close>\<close>

text \<open>
  The argument of \<^verbatim>\<open>prisma.stripeProduct.create\<close> is evaluated before the call. Reading
  \<^verbatim>\<open>data.images.length\<close> is the one place where the evaluation can throw.
\<close>

definition stripeProduct_data :: "product \<Rightarrow> error + dbproduct" where
  "stripeProduct_data d =
     (case array_length (product_images d) of
        Inl e \<Rightarrow> Inl e
      | Inr n \<Rightarrow> Inr \<lparr>
          dbproduct_id = product_id d,
          dbproduct_description = or_string (product_description d) '''',
          dbproduct_features = map feature_name (or_array (product_features d) []),
          dbproduct_image =
            (if n > 0 then (case product_images d of Val (x # _) \<Rightarrow> x | _ \<Rightarrow> '''') else ''''),
          dbproduct_metadata = product_metadata d,
          dbproduct_name = product_name d,
          dbproduct_unitLabel = product_unit_label d,
          dbproduct_created = new_Date (product_created d * 1000) \<rparr>)"

definition stripePrice_data :: "price \<Rightarrow> dbprice" where
  "stripePrice_data d = \<lparr>
     dbprice_id = price_id d,
     dbprice_billingScheme = price_billing_scheme d,
     dbprice_created = new_Date (price_created d * 1000),
     dbprice_currency = price_currency d,
     dbprice_customUnitAmount =
       (if truthy_number (price_custom_unit_amount d)
        then (case price_custom_unit_amount d of Val n \<Rightarrow> Val (Number_toString n) | _ \<Rightarrow> Null)
        else Null),
     dbprice_livemode = price_livemode d,
     dbprice_lookupKey = price_lookup_key d,
     dbprice_metadata = price_metadata d,
     dbprice_nickname = price_nickname d,
     dbprice_productId = price_product d,
     dbprice_recurring = price_recurring d,
     dbprice_tiersMode =
       (if truthy_string (price_tiers_mode d)
        then (case price_tiers_mode d of Val s \<Rightarrow> Val (String_toString s) | _ \<Rightarrow> Val '''')
        else Val ''''),
     dbprice_type = price_type d,
     dbprice_unitAmount =
       (if truthy_number (price_unit_amount d)
        then (case price_unit_amount d of Val n \<Rightarrow> Val (Number_toString n) | _ \<Rightarrow> Null)
        else Null),
     dbprice_unitAmountDecimal = price_unit_amount_decimal d \<rparr>"

section \<open>The destination store, the environment and the run\<close>

text \<open>
  What a run leaves behind: the two tables of the destination store and, in program
  order, the calls it made to the two external clients and the lines it printed.
\<close>

datatype event =
    NewPrismaClient
  | ConsoleLog string
  | ConsoleLogNumber string nat
  | ConsoleLogError error
  | ConsoleError string error
  | StripeProductsList
  | StripePricesList
  | PriceDeleteMany
  | ProductDeleteMany
  | ProductCreate dbproduct
  | PriceCreate dbprice
  | ProductCount
  | PriceCount

record world =
  stripeProduct :: "dbproduct list"
  stripePrice :: "dbprice list"
  trace :: "event list"

definition emit :: "event list \<Rightarrow> world \<Rightarrow> world" where
  "emit es w = w\<lparr>trace := trace w @ es\<rparr>"

text \<open>
  The two clients are external libraries. What the program observes of them is taken as a
  parameter of the run:
  \<^item> \<^verbatim>\<open>process.env.STRIPE_SECRET_KEY\<close>, absent or a string;
  \<^item> the outcome of awaiting \<^verbatim>\<open>Promise.all\<close> of the two list calls: the error of the
    rejection, or the \<^verbatim>\<open>data\<close> arrays of the two pages;
  \<^item> for each store call, the error it throws, if any. Whether a \<^verbatim>\<open>create\<close> throws may
    depend on the row and on the rows the two tables hold at that moment (a duplicate
    identifier, a field the store does not accept).
  A \<^verbatim>\<open>deleteMany({})\<close> that returns has emptied its table, a \<^verbatim>\<open>create\<close> that returns has
  added its row and one that throws has added nothing, and \<^verbatim>\<open>count()\<close> answers the number
  of rows; no other writer touches the store during the run.
\<close>

record env =
  STRIPE_SECRET_KEY :: "string opt"
  stripe_lists :: "error + (product list \<times> price list)"
  price_deleteMany_error :: "error option"
  product_deleteMany_error :: "error option"
  product_create_error :: "dbproduct list \<Rightarrow> dbprice list \<Rightarrow> dbproduct \<Rightarrow> error option"
  price_create_error :: "dbproduct list \<Rightarrow> dbprice list \<Rightarrow> dbprice \<Rightarrow> error option"
  count_error :: "error option"

text \<open>\<^verbatim>\<open>getStripeInstance\<close>: the client is built when the variable is truthy.\<close>

definition getStripeInstance :: "env \<Rightarrow> error + unit" where
  "getStripeInstance env =
     (if truthy_string (STRIPE_SECRET_KEY env) then Inr ()
      else Inl (Error ''STRIPE_SECRET_KEY environment variable not set''))"

text \<open>
  \<^verbatim>\<open>cleanup\<close>: prices first, then products. A function that can throw returns the error
  (or \<open>None\<close>) together with the world as the throw left it.
\<close>

definition cleanup :: "env \<Rightarrow> world \<Rightarrow> error option \<times> world" where
  "cleanup env w =
     (let w1 = emit [PriceDeleteMany] w in
      case price_deleteMany_error env of
        Some e \<Rightarrow> (Some e, w1)
      | None \<Rightarrow>
          (let w2 = emit [ProductDeleteMany] (w1\<lparr>stripePrice := []\<rparr>) in
           case product_deleteMany_error env of
             Some e \<Rightarrow> (Some e, w2)
           | None \<Rightarrow> (None, w2\<lparr>stripeProduct := []\<rparr>)))"

text \<open>One turn of the loop of \<^verbatim>\<open>seedProducts\<close>: the \<^verbatim>\<open>try\<close> block and its \<^verbatim>\<open>catch\<close>.\<close>

definition seedProduct :: "env \<Rightarrow> product \<Rightarrow> world \<Rightarrow> world" where
  "seedProduct env d w =
     (case stripeProduct_data d of
        Inl e \<Rightarrow> emit [ConsoleLogError e] w
      | Inr row \<Rightarrow>
          (let w1 = emit [ProductCreate row] w in
           case product_create_error env (stripeProduct w) (stripePrice w) row of
             Some e \<Rightarrow> emit [ConsoleLogError e] w1
           | None \<Rightarrow> w1\<lparr>stripeProduct := stripeProduct w1 @ [row]\<rparr>))"

fun seedProducts :: "env \<Rightarrow> product list \<Rightarrow> world \<Rightarrow> world" where
  "seedProducts env [] w = w"
| "seedProducts env (d # ds) w = seedProducts env ds (seedProduct env d w)"

text \<open>One turn of the loop of \<^verbatim>\<open>seedPrices\<close>.\<close>

definition seedPrice :: "env \<Rightarrow> price \<Rightarrow> world \<Rightarrow> world" where
  "seedPrice env d w =
     (let row = stripePrice_data d; w1 = emit [PriceCreate row] w in
      case price_create_error env (stripeProduct w) (stripePrice w) row of
        Some e \<Rightarrow> emit [ConsoleLogError e] w1
      | None \<Rightarrow> w1\<lparr>stripePrice := stripePrice w1 @ [row]\<rparr>)"

fun seedPrices :: "env \<Rightarrow> price list \<Rightarrow> world \<Rightarrow> world" where
  "seedPrices env [] w = w"
| "seedPrices env (d # ds) w = seedPrices env ds (seedPrice env d w)"

text \<open>\<^verbatim>\<open>printStats\<close>: both counts are requested, then both are printed.\<close>

definition printStats :: "env \<Rightarrow> world \<Rightarrow> error option \<times> world" where
  "printStats env w =
     (let w1 = emit [ProductCount, PriceCount] w in
      case count_error env of
        Some e \<Rightarrow> (Some e, w1)
      | None \<Rightarrow>
          (None, emit [ConsoleLogNumber ''Products synced:'' (length (stripeProduct w1)),
                       ConsoleLogNumber ''Prices synced:'' (length (stripePrice w1))] w1))"

text \<open>The \<^verbatim>\<open>try\<close> block of \<^verbatim>\<open>sync\<close>, up to the call of \<^verbatim>\<open>process.exit(0)\<close>.\<close>

definition sync_try :: "env \<Rightarrow> world \<Rightarrow> error option \<times> world" where
  "sync_try env w =
     (let w0 = emit [ConsoleLog ''Starting sync with Stripe''] w in
      case getStripeInstance env of
        Inl e \<Rightarrow> (Some e, w0)
      | Inr stripe \<Rightarrow>
          (let w1 = emit [StripeProductsList, StripePricesList] w0 in
           case stripe_lists env of
             Inl e \<Rightarrow> (Some e, w1)
           | Inr (products, prices) \<Rightarrow>
               if length prices > 0 \<and> length products > 0 then
                 (case cleanup env w1 of
                    (Some e, w2) \<Rightarrow> (Some e, w2)
                  | (None, w2) \<Rightarrow>
                      (let w3 = seedProducts env products w2;
                           w4 = seedPrices env prices w3 in
                       case printStats env w4 of
                         (Some e, w5) \<Rightarrow> (Some e, w5)
                       | (None, w5) \<Rightarrow> (None, emit [ConsoleLog ''Sync completed successfully''] w5)))
               else if length prices = 0 then (Some (Error ''No prices found on Stripe''), w1)
               else (Some (Error ''No products found on Stripe''), w1)))"

text \<open>
  \<^verbatim>\<open>sync\<close>: the world at the exit of the process and the exit code. The persistence
  client is constructed before the \<^verbatim>\<open>try\<close> block; constructing it sends nothing to the
  store.
\<close>

definition sync :: "env \<Rightarrow> world \<Rightarrow> world \<times> nat" where
  "sync env w =
     (case sync_try env (emit [NewPrismaClient] w) of
        (None, w') \<Rightarrow> (w', 0)
      | (Some error, w') \<Rightarrow> (emit [ConsoleError ''Error syncing with Stripe:'' error] w', 1))"

section \<open>Notions used to state the properties\<close>

text \<open>The store with both tables empty and nothing recorded yet.\<close>

definition empty_store :: world where
  "empty_store = \<lparr>stripeProduct = [], stripePrice = [], trace = []\<rparr>"

text \<open>
  The world once a run has passed the credential check, both list calls, the check of the
  two lists and \<^verbatim>\<open>cleanup\<close>.
\<close>

definition cleaned :: "world \<Rightarrow> world" where
  "cleaned w = w\<lparr>stripeProduct := [], stripePrice := [],
     trace := trace w @ [NewPrismaClient, ConsoleLog ''Starting sync with Stripe'',
       StripeProductsList, StripePricesList, PriceDeleteMany, ProductDeleteMany]\<rparr>"

text \<open>The contents of the destination store.\<close>

definition tables :: "world \<Rightarrow> dbproduct list \<times> dbprice list" where
  "tables w = (stripeProduct w, stripePrice w)"

text \<open>The events a run added to the trace it started from.\<close>

definition new_events :: "world \<Rightarrow> world \<Rightarrow> event list" where
  "new_events w w' = drop (length (trace w)) (trace w')"

text \<open>
  The insertion of a fetched record does not error, in a given world, when the literal is
  evaluated without a throw and the \<^verbatim>\<open>create\<close> call returns.
\<close>

definition product_insert_ok :: "env \<Rightarrow> world \<Rightarrow> product \<Rightarrow> bool" where
  "product_insert_ok env w d =
     (case stripeProduct_data d of
        Inl e \<Rightarrow> False
      | Inr row \<Rightarrow> product_create_error env (stripeProduct w) (stripePrice w) row = None)"

definition price_insert_ok :: "env \<Rightarrow> world \<Rightarrow> price \<Rightarrow> bool" where
  "price_insert_ok env w d =
     (price_create_error env (stripeProduct w) (stripePrice w) (stripePrice_data d) = None)"

text \<open>
  The fetched records whose insertion does not error during a pass of the loop that starts
  in world \<open>w\<close>, in fetch order.
\<close>

fun products_inserted :: "env \<Rightarrow> product list \<Rightarrow> world \<Rightarrow> product list" where
  "products_inserted env [] w = []"
| "products_inserted env (d # ds) w =
     (if product_insert_ok env w d then [d] else [])
       @ products_inserted env ds (seedProduct env d w)"

fun prices_inserted :: "env \<Rightarrow> price list \<Rightarrow> world \<Rightarrow> price list" where
  "prices_inserted env [] w = []"
| "prices_inserted env (d # ds) w =
     (if price_insert_ok env w d then [d] else [])
       @ prices_inserted env ds (seedPrice env d w)"

text \<open>
  The error that the \<^verbatim>\<open>try\<close> block of an iteration throws in a given world, if any: the
  one of the literal, else the one of the \<^verbatim>\<open>create\<close> call.
\<close>

definition product_insert_error :: "env \<Rightarrow> world \<Rightarrow> product \<Rightarrow> error option" where
  "product_insert_error env w d =
     (case stripeProduct_data d of
        Inl e \<Rightarrow> Some e
      | Inr row \<Rightarrow> product_create_error env (stripeProduct w) (stripePrice w) row)"

definition price_insert_error :: "env \<Rightarrow> world \<Rightarrow> price \<Rightarrow> error option" where
  "price_insert_error env w d =
     price_create_error env (stripeProduct w) (stripePrice w) (stripePrice_data d)"

text \<open>
  The errors thrown during a pass of the loop that starts in world \<open>w\<close>, one for each
  record whose insertion throws, in fetch order.
\<close>

fun product_errors :: "env \<Rightarrow> product list \<Rightarrow> world \<Rightarrow> error list" where
  "product_errors env [] w = []"
| "product_errors env (d # ds) w =
     (case product_insert_error env w d of None \<Rightarrow> [] | Some e \<Rightarrow> [e])
       @ product_errors env ds (seedProduct env d w)"

fun price_errors :: "env \<Rightarrow> price list \<Rightarrow> world \<Rightarrow> error list" where
  "price_errors env [] w = []"
| "price_errors env (d # ds) w =
     (case price_insert_error env w d of None \<Rightarrow> [] | Some e \<Rightarrow> [e])
       @ price_errors env ds (seedPrice env d w)"

text \<open>The row a fetched product gives, when its literal is evaluated without a throw.\<close>

definition row_of_product :: "product \<Rightarrow> dbproduct list" where
  "row_of_product d = (case stripeProduct_data d of Inl e \<Rightarrow> [] | Inr row \<Rightarrow> [row])"

text \<open>Kinds of events.\<close>

fun is_log_error :: "event \<Rightarrow> bool" where
  "is_log_error (ConsoleLogError e) = True"
| "is_log_error _ = False"

fun is_product_create :: "event \<Rightarrow> bool" where
  "is_product_create (ProductCreate r) = True"
| "is_product_create _ = False"

fun is_price_create :: "event \<Rightarrow> bool" where
  "is_price_create (PriceCreate r) = True"
| "is_price_create _ = False"

fun is_store_call :: "event \<Rightarrow> bool" where
  "is_store_call PriceDeleteMany = True"
| "is_store_call ProductDeleteMany = True"
| "is_store_call (ProductCreate r) = True"
| "is_store_call (PriceCreate r) = True"
| "is_store_call ProductCount = True"
| "is_store_call PriceCount = True"
| "is_store_call _ = False"

fun is_stripe_call :: "event \<Rightarrow> bool" where
  "is_stripe_call StripeProductsList = True"
| "is_stripe_call StripePricesList = True"
| "is_stripe_call _ = False"

text \<open>No product is created once a price has been created.\<close>

fun products_before_prices :: "event list \<Rightarrow> bool" where
  "products_before_prices [] = True"
| "products_before_prices (e # es) =
     (if is_price_create e then \<not> list_ex is_product_create es
      else products_before_prices es)"

text \<open>
  Every price row of the store names a product row of the store, as far as the name is
  the identifier of one of the given products.
\<close>

definition price_refs_inserted :: "product list \<Rightarrow> world \<Rightarrow> bool" where
  "price_refs_inserted ps w =
     list_all (\<lambda>r. dbprice_productId r \<in> set (map product_id ps)
                 \<longrightarrow> dbprice_productId r \<in> set (map dbproduct_id (stripeProduct w)))
       (stripePrice w)"

subsection \<open>Sample inputs\<close>

text \<open>The product and the price of the end-to-end scenario, and a price that costs nothing.\<close>

definition prod_1 :: product where
  "prod_1 = \<lparr>
     product_id = ''prod_1'', product_description = Undefined, product_features = Val [],
     product_images = Val [], product_metadata = JObj [], product_name = ''Pro'',
     product_unit_label = Undefined, product_created = 1700000000 \<rparr>"

definition price_1 :: price where
  "price_1 = \<lparr>
     price_id = ''price_1'', price_billing_scheme = ''per_unit'', price_created = 1700000000,
     price_currency = ''usd'', price_custom_unit_amount = Null, price_livemode = False,
     price_lookup_key = Null, price_metadata = JObj [], price_nickname = Null,
     price_product = ''prod_1'', price_recurring = Null, price_tiers_mode = Null,
     price_type = ''one_time'', price_unit_amount = Val 1000,
     price_unit_amount_decimal = Val ''1000'' \<rparr>"

definition price_free :: price where
  "price_free = price_1 \<lparr> price_id := ''price_free'', price_unit_amount := Val 0,
     price_unit_amount_decimal := Val ''0'' \<rparr>"

text \<open>The same product delivered without its \<^verbatim>\<open>images\<close> field.\<close>

definition prod_no_images :: product where
  "prod_no_images = prod_1 \<lparr> product_images := Undefined \<rparr>"

text \<open>A product delivered without its \<^verbatim>\<open>features\<close> field, with one image.\<close>

definition prod_no_features :: product where
  "prod_no_features = prod_1 \<lparr> product_id := ''prod_3'', product_features := Undefined,
     product_images := Val [''https://img/c.png''] \<rparr>"

text \<open>A product with a description, two features and two images.\<close>

definition prod_2 :: product where
  "prod_2 = \<lparr>
     product_id = ''prod_2'', product_description = Val ''Team plan'',
     product_features = Val [\<lparr>feature_name = ''SSO''\<rparr>, \<lparr>feature_name = ''Audit logs''\<rparr>],
     product_images = Val [''https://img/a.png'', ''https://img/b.png''],
     product_metadata = JObj [], product_name = ''Team'',
     product_unit_label = Val ''seat'', product_created = 1700000001 \<rparr>"

text \<open>
  An environment with the credential set, a store that accepts every row, and the given
  outcome of the two list calls; and one without the credential.
\<close>

definition env_with :: "error + (product list \<times> price list) \<Rightarrow> env" where
  "env_with fetched = \<lparr>
     STRIPE_SECRET_KEY = Val ''sk_test_1'',
     stripe_lists = fetched,
     price_deleteMany_error = None,
     product_deleteMany_error = None,
     product_create_error = (\<lambda>products prices row. None),
     price_create_error = (\<lambda>products prices row. None),
     count_error = None \<rparr>"

definition env_no_key :: env where
  "env_no_key = (env_with (Inr ([prod_1], [price_1]))) \<lparr> STRIPE_SECRET_KEY := Undefined \<rparr>"

text \<open>A store that refuses a product row whose identifier is already in the table.\<close>

definition env_unique :: "error + (product list \<times> price list) \<Rightarrow> env" where
  "env_unique fetched = (env_with fetched) \<lparr>
     product_create_error := (\<lambda>products prices row.
       if dbproduct_id row \<in> set (map dbproduct_id products)
       then Some (PrismaError ''Unique constraint failed on the fields: (id)'') else None) \<rparr>"

text \<open>A store that already holds a row of an earlier run.\<close>

definition old_store :: world where
  "old_store = \<lparr>
     stripeProduct = [\<lparr>
       dbproduct_id = ''prod_old'', dbproduct_description = ''Legacy'', dbproduct_features = [],
       dbproduct_image = '''', dbproduct_metadata = JObj [], dbproduct_name = ''Old'',
       dbproduct_unitLabel = Null, dbproduct_created = Date 1600000000000 \<rparr>],
     stripePrice = [],
     trace = [] \<rparr>"

text \<open>
  A run over four fetched products, one without images and one delivered twice, and two
  prices, against the store that refuses duplicates.
\<close>

definition sample_products :: "product list" where
  "sample_products = [prod_1, prod_no_images, prod_1, prod_2]"

definition sample_prices :: "price list" where
  "sample_prices = [price_1, price_free]"

definition env_sample :: env where
  "env_sample = env_unique (Inr (sample_products, sample_prices))"

text \<open>
  A store that refuses duplicates and whose count queries are rejected, with one product
  delivered twice.
\<close>

definition env_count_rejected :: env where
  "env_count_rejected = (env_unique (Inr ([prod_1, prod_1], [price_1])))
     \<lparr> count_error := Some (PrismaError ''Can not reach database server'') \<rparr>"

section \<open>Facts about the loops and the run\<close>

lemma stripeProduct_emit: "stripeProduct (emit es w) = stripeProduct w"
  by (simp add: emit_def)

lemma stripePrice_emit: "stripePrice (emit es w) = stripePrice w"
  by (simp add: emit_def)

lemma trace_emit: "trace (emit es w) = trace w @ es"
  by (simp add: emit_def)

lemmas emit_simps = stripeProduct_emit stripePrice_emit trace_emit

lemma row_of_product_cases:
  "row_of_product d = [] \<or> (\<exists>row. row_of_product d = [row] \<and> stripeProduct_data d = Inr row)"
  by (simp add: row_of_product_def split: sum.splits)

lemma stripePrice_seedProduct: "stripePrice (seedProduct env d w) = stripePrice w"
  by (simp add: seedProduct_def Let_def emit_simps split: sum.splits option.splits)

lemma stripeProduct_seedProduct:
  "stripeProduct (seedProduct env d w) =
     stripeProduct w @ (if product_insert_ok env w d then row_of_product d else [])"
  by (simp add: seedProduct_def product_insert_ok_def row_of_product_def Let_def emit_simps
      split: sum.splits option.splits)

lemma stripeProduct_seedPrice: "stripeProduct (seedPrice env d w) = stripeProduct w"
  by (simp add: seedPrice_def Let_def emit_simps split: option.splits)

lemma stripePrice_seedPrice:
  "stripePrice (seedPrice env d w) =
     stripePrice w @ (if price_insert_ok env w d then [stripePrice_data d] else [])"
  by (simp add: seedPrice_def price_insert_ok_def Let_def emit_simps split: option.splits)

lemma stripePrice_seedProducts: "stripePrice (seedProducts env ds w) = stripePrice w"
  by (induction ds arbitrary: w) (simp_all add: stripePrice_seedProduct)

lemma stripeProduct_seedPrices: "stripeProduct (seedPrices env ds w) = stripeProduct w"
  by (induction ds arbitrary: w) (simp_all add: stripeProduct_seedPrice)

lemma stripeProduct_seedProducts:
  "stripeProduct (seedProducts env ds w) =
     stripeProduct w @ concat (map row_of_product (products_inserted env ds w))"
  by (induction ds arbitrary: w) (simp_all add: stripeProduct_seedProduct)

lemma stripePrice_seedPrices:
  "stripePrice (seedPrices env ds w) =
     stripePrice w @ map stripePrice_data (prices_inserted env ds w)"
  by (induction ds arbitrary: w) (simp_all add: stripePrice_seedPrice)

lemma seedProducts_append:
  "seedProducts env (ds @ ds') w = seedProducts env ds' (seedProducts env ds w)"
  by (induction ds arbitrary: w) simp_all

lemma seedPrices_append:
  "seedPrices env (ds @ ds') w = seedPrices env ds' (seedPrices env ds w)"
  by (induction ds arbitrary: w) simp_all


lemma seedProduct_trace:
  "\<exists>es. trace (seedProduct env d w) = trace w @ es
      \<and> \<not> list_ex is_price_create es
      \<and> length (filter is_log_error es) = (if product_insert_ok env w d then 0 else 1)
      \<and> length (filter is_product_create es) = length (row_of_product d)"
  by (simp add: seedProduct_def product_insert_ok_def row_of_product_def Let_def emit_simps
      split: sum.splits option.splits)

lemma seedPrice_trace:
  "\<exists>es. trace (seedPrice env d w) = trace w @ es
      \<and> \<not> list_ex is_product_create es
      \<and> length (filter is_log_error es) = (if price_insert_ok env w d then 0 else 1)
      \<and> length (filter is_price_create es) = 1"
  by (simp add: seedPrice_def price_insert_ok_def Let_def emit_simps split: option.splits)

lemma seedProducts_trace:
  "\<exists>es. trace (seedProducts env ds w) = trace w @ es
      \<and> \<not> list_ex is_price_create es
      \<and> length (filter is_log_error es) + length (products_inserted env ds w) = length ds
      \<and> length (filter is_product_create es) = length (concat (map row_of_product ds))"
proof (induction ds arbitrary: w)
  case Nil
  then show ?case by simp
next
  case (Cons d ds)
  obtain es1 where es1: "trace (seedProduct env d w) = trace w @ es1"
    "\<not> list_ex is_price_create es1"
    "length (filter is_log_error es1) = (if product_insert_ok env w d then 0 else 1)"
    "length (filter is_product_create es1) = length (row_of_product d)"
    using seedProduct_trace [of env d w] by blast
  obtain es2 where es2: "trace (seedProducts env ds (seedProduct env d w))
        = trace (seedProduct env d w) @ es2"
    "\<not> list_ex is_price_create es2"
    "length (filter is_log_error es2)
       + length (products_inserted env ds (seedProduct env d w)) = length ds"
    "length (filter is_product_create es2) = length (concat (map row_of_product ds))"
    using Cons.IH [of "seedProduct env d w"] by blast
  have "trace (seedProducts env (d # ds) w) = trace w @ (es1 @ es2)"
    using es1(1) es2(1) by simp
  moreover have "\<not> list_ex is_price_create (es1 @ es2)"
    using es1(2) es2(2) by simp
  moreover have "length (filter is_log_error (es1 @ es2))
      + length (products_inserted env (d # ds) w) = length (d # ds)"
    using es1(3) es2(3) by simp
  moreover have "length (filter is_product_create (es1 @ es2))
      = length (concat (map row_of_product (d # ds)))"
    using es1(4) es2(4) by simp
  ultimately show ?case by blast
qed

lemma seedPrices_trace:
  "\<exists>es. trace (seedPrices env ds w) = trace w @ es
      \<and> \<not> list_ex is_product_create es
      \<and> length (filter is_log_error es) + length (prices_inserted env ds w) = length ds
      \<and> length (filter is_price_create es) = length ds"
proof (induction ds arbitrary: w)
  case Nil
  then show ?case by simp
next
  case (Cons d ds)
  obtain es1 where es1: "trace (seedPrice env d w) = trace w @ es1"
    "\<not> list_ex is_product_create es1"
    "length (filter is_log_error es1) = (if price_insert_ok env w d then 0 else 1)"
    "length (filter is_price_create es1) = 1"
    using seedPrice_trace [of env d w] by blast
  obtain es2 where es2: "trace (seedPrices env ds (seedPrice env d w))
        = trace (seedPrice env d w) @ es2"
    "\<not> list_ex is_product_create es2"
    "length (filter is_log_error es2)
       + length (prices_inserted env ds (seedPrice env d w)) = length ds"
    "length (filter is_price_create es2) = length ds"
    using Cons.IH [of "seedPrice env d w"] by blast
  have "trace (seedPrices env (d # ds) w) = trace w @ (es1 @ es2)"
    using es1(1) es2(1) by simp
  moreover have "\<not> list_ex is_product_create (es1 @ es2)"
    using es1(2) es2(2) by simp
  moreover have "length (filter is_log_error (es1 @ es2))
      + length (prices_inserted env (d # ds) w) = length (d # ds)"
    using es1(3) es2(3) by simp
  moreover have "length (filter is_price_create (es1 @ es2)) = length (d # ds)"
    using es1(4) es2(4) by simp
  ultimately show ?case by blast
qed

text \<open>Whether an insertion errors, and what it does to the tables, depends on the tables only.\<close>

lemma product_insert_ok_tables:
  "stripeProduct w = stripeProduct w' \<Longrightarrow> stripePrice w = stripePrice w'
     \<Longrightarrow> product_insert_ok env w d = product_insert_ok env w' d"
  by (simp add: product_insert_ok_def split: sum.splits)

lemma price_insert_ok_tables:
  "stripeProduct w = stripeProduct w' \<Longrightarrow> stripePrice w = stripePrice w'
     \<Longrightarrow> price_insert_ok env w d = price_insert_ok env w' d"
  by (simp add: price_insert_ok_def)

lemma products_inserted_tables:
  "stripeProduct w = stripeProduct w' \<Longrightarrow> stripePrice w = stripePrice w'
     \<Longrightarrow> products_inserted env ds w = products_inserted env ds w'"
proof (induction ds arbitrary: w w')
  case Nil
  then show ?case by simp
next
  case (Cons d ds)
  have ok: "product_insert_ok env w d = product_insert_ok env w' d"
    using Cons.prems by (rule product_insert_ok_tables)
  have "stripeProduct (seedProduct env d w) = stripeProduct (seedProduct env d w')"
    using Cons.prems ok by (simp add: stripeProduct_seedProduct)
  moreover have "stripePrice (seedProduct env d w) = stripePrice (seedProduct env d w')"
    using Cons.prems by (simp add: stripePrice_seedProduct)
  ultimately have "products_inserted env ds (seedProduct env d w)
      = products_inserted env ds (seedProduct env d w')"
    by (rule Cons.IH)
  then show ?case using ok by simp
qed

lemma prices_inserted_tables:
  "stripeProduct w = stripeProduct w' \<Longrightarrow> stripePrice w = stripePrice w'
     \<Longrightarrow> prices_inserted env ds w = prices_inserted env ds w'"
proof (induction ds arbitrary: w w')
  case Nil
  then show ?case by simp
next
  case (Cons d ds)
  have ok: "price_insert_ok env w d = price_insert_ok env w' d"
    using Cons.prems by (rule price_insert_ok_tables)
  have "stripeProduct (seedPrice env d w) = stripeProduct (seedPrice env d w')"
    using Cons.prems by (simp add: stripeProduct_seedPrice)
  moreover have "stripePrice (seedPrice env d w) = stripePrice (seedPrice env d w')"
    using Cons.prems ok by (simp add: stripePrice_seedPrice)
  ultimately have "prices_inserted env ds (seedPrice env d w)
      = prices_inserted env ds (seedPrice env d w')"
    by (rule Cons.IH)
  then show ?case using ok by simp
qed

lemma cleanup_ok:
  "price_deleteMany_error env = None \<Longrightarrow> product_deleteMany_error env = None
     \<Longrightarrow> cleanup env w =
          (None, w\<lparr>stripeProduct := [], stripePrice := [],
                   trace := trace w @ [PriceDeleteMany, ProductDeleteMany]\<rparr>)"
  by (simp add: cleanup_def emit_def)

lemma sync_reached:
  assumes "truthy_string (STRIPE_SECRET_KEY env)"
    and "stripe_lists env = Inr (products, prices)"
    and "products \<noteq> []" and "prices \<noteq> []"
    and "price_deleteMany_error env = None" and "product_deleteMany_error env = None"
  shows "sync env w =
     (let w4 = seedPrices env prices (seedProducts env products (cleaned w)) in
      case count_error env of
        None \<Rightarrow>
          (emit [ProductCount, PriceCount,
                 ConsoleLogNumber ''Products synced:'' (length (stripeProduct w4)),
                 ConsoleLogNumber ''Prices synced:'' (length (stripePrice w4)),
                 ConsoleLog ''Sync completed successfully''] w4, 0)
      | Some e \<Rightarrow>
          (emit [ProductCount, PriceCount, ConsoleError ''Error syncing with Stripe:'' e] w4, 1))"
  using assms
  by (simp add: sync_def sync_try_def getStripeInstance_def cleanup_ok printStats_def
      cleaned_def Let_def emit_def split: option.splits)

lemma sync_reached_world:
  assumes "truthy_string (STRIPE_SECRET_KEY env)"
    and "stripe_lists env = Inr (products, prices)"
    and "products \<noteq> []" and "prices \<noteq> []"
    and "price_deleteMany_error env = None" and "product_deleteMany_error env = None"
  shows "\<exists>es. fst (sync env w)
      = emit es (seedPrices env prices (seedProducts env products (cleaned w)))
    \<and> \<not> list_ex is_product_create es \<and> \<not> list_ex is_price_create es
    \<and> \<not> list_ex is_log_error es"
  using sync_reached [OF assms, of w]
  by (cases "count_error env") (auto simp add: Let_def)

lemma inserted_tables:
  "stripeProduct (seedPrices env prices (seedProducts env products (cleaned w)))
     = concat (map row_of_product (products_inserted env products empty_store))
   \<and> stripePrice (seedPrices env prices (seedProducts env products (cleaned w)))
     = map stripePrice_data
         (prices_inserted env prices (seedProducts env products empty_store))"
proof -
  let ?c = "cleaned w"
  have c: "stripeProduct ?c = stripeProduct empty_store" "stripePrice ?c = stripePrice empty_store"
    by (simp_all add: cleaned_def empty_store_def)
  have pi: "products_inserted env products ?c = products_inserted env products empty_store"
    using c by (rule products_inserted_tables)
  have p: "stripeProduct (seedProducts env products ?c)
      = stripeProduct (seedProducts env products empty_store)"
    using pi c by (simp add: stripeProduct_seedProducts)
  have q: "stripePrice (seedProducts env products ?c)
      = stripePrice (seedProducts env products empty_store)"
    using c by (simp add: stripePrice_seedProducts)
  have qi: "prices_inserted env prices (seedProducts env products ?c)
      = prices_inserted env prices (seedProducts env products empty_store)"
    using p q by (rule prices_inserted_tables)
  have "stripeProduct (seedPrices env prices (seedProducts env products ?c))
      = concat (map row_of_product (products_inserted env products empty_store))"
    using pi c by (simp add: stripeProduct_seedPrices stripeProduct_seedProducts empty_store_def)
  moreover have "stripePrice (seedPrices env prices (seedProducts env products ?c))
      = map stripePrice_data
          (prices_inserted env prices (seedProducts env products empty_store))"
    using qi c by (simp add: stripePrice_seedPrices stripePrice_seedProducts empty_store_def)
  ultimately show ?thesis by simp
qed

lemma sync_tables:
  assumes "truthy_string (STRIPE_SECRET_KEY env)"
    and "stripe_lists env = Inr (products, prices)"
    and "products \<noteq> []" and "prices \<noteq> []"
    and "price_deleteMany_error env = None" and "product_deleteMany_error env = None"
  shows "stripeProduct (fst (sync env w))
       = concat (map row_of_product (products_inserted env products empty_store))
    \<and> stripePrice (fst (sync env w))
       = map stripePrice_data
           (prices_inserted env prices (seedProducts env products empty_store))"
proof -
  obtain es where "fst (sync env w)
      = emit es (seedPrices env prices (seedProducts env products (cleaned w)))"
    using sync_reached_world [OF assms, of w] by blast
  then show ?thesis
    using inserted_tables [of env prices products w] by (simp add: emit_simps)
qed

lemma products_inserted_ok:
  "d \<in> set (products_inserted env ds w) \<Longrightarrow> \<exists>row. stripeProduct_data d = Inr row"
proof (induction ds arbitrary: w)
  case Nil
  then show ?case by simp
next
  case (Cons a ds)
  then show ?case
    by (auto simp add: product_insert_ok_def split: if_splits sum.splits)
qed

lemma row_of_product_id:
  "stripeProduct_data d = Inr row \<Longrightarrow> row_of_product d = [row] \<and> dbproduct_id row = product_id d"
  by (auto simp add: row_of_product_def stripeProduct_data_def split: sum.splits)

lemma inserted_rows_ids:
  "\<forall>d \<in> set ds. \<exists>row. stripeProduct_data d = Inr row
     \<Longrightarrow> map dbproduct_id (concat (map row_of_product ds)) = map product_id ds"
proof (induction ds)
  case Nil
  then show ?case by simp
next
  case (Cons d ds)
  then obtain row where "stripeProduct_data d = Inr row" by auto
  then have "row_of_product d = [row]" "dbproduct_id row = product_id d"
    using row_of_product_id by blast+
  then show ?case using Cons by simp
qed

lemma inserted_rows_length:
  "length (concat (map row_of_product (products_inserted env ds w)))
     = length (products_inserted env ds w)"
proof -
  have "map dbproduct_id (concat (map row_of_product (products_inserted env ds w)))
      = map product_id (products_inserted env ds w)"
    by (rule inserted_rows_ids) (blast dest: products_inserted_ok)
  then have "length (map dbproduct_id (concat (map row_of_product (products_inserted env ds w))))
      = length (map product_id (products_inserted env ds w))"
    by simp
  then show ?thesis by simp
qed

lemma products_before_prices_append:
  "\<not> list_ex is_price_create xs
     \<Longrightarrow> products_before_prices (xs @ ys) = products_before_prices ys"
  by (induction xs) simp_all

lemma products_before_prices_no_product:
  "\<not> list_ex is_product_create ys \<Longrightarrow> products_before_prices ys"
  by (induction ys) simp_all

text \<open>
  The events of a run that reaches the insertion phase: the six events up to the end of
  \<^verbatim>\<open>cleanup\<close>, those of the product loop, those of the price loop, and the rest.
\<close>

lemma sync_reached_events:
  assumes "truthy_string (STRIPE_SECRET_KEY env)"
    and "stripe_lists env = Inr (products, prices)"
    and "products \<noteq> []" and "prices \<noteq> []"
    and "price_deleteMany_error env = None" and "product_deleteMany_error env = None"
  shows "\<exists>es1 es2 es3. new_events w (fst (sync env w))
        = [NewPrismaClient, ConsoleLog ''Starting sync with Stripe'',
           StripeProductsList, StripePricesList, PriceDeleteMany, ProductDeleteMany]
          @ es1 @ es2 @ es3
    \<and> \<not> list_ex is_price_create es1
    \<and> length (filter is_log_error es1)
         + length (products_inserted env products empty_store) = length products
    \<and> length (filter is_product_create es1) = length (concat (map row_of_product products))
    \<and> \<not> list_ex is_product_create es2
    \<and> length (filter is_log_error es2)
         + length (prices_inserted env prices (seedProducts env products empty_store))
         = length prices
    \<and> length (filter is_price_create es2) = length prices
    \<and> \<not> list_ex is_product_create es3 \<and> \<not> list_ex is_price_create es3
    \<and> \<not> list_ex is_log_error es3"
proof -
  let ?c = "cleaned w"
  let ?w3 = "seedProducts env products ?c"
  let ?w4 = "seedPrices env prices ?w3"
  have c: "stripeProduct ?c = stripeProduct empty_store" "stripePrice ?c = stripePrice empty_store"
    by (simp_all add: cleaned_def empty_store_def)
  have pi: "products_inserted env products ?c = products_inserted env products empty_store"
    using c by (rule products_inserted_tables)
  have "stripeProduct ?w3 = stripeProduct (seedProducts env products empty_store)"
    using pi c by (simp add: stripeProduct_seedProducts)
  moreover have "stripePrice ?w3 = stripePrice (seedProducts env products empty_store)"
    using c by (simp add: stripePrice_seedProducts)
  ultimately have qi: "prices_inserted env prices ?w3
      = prices_inserted env prices (seedProducts env products empty_store)"
    by (rule prices_inserted_tables)
  obtain es1 where es1: "trace ?w3 = trace ?c @ es1"
    "\<not> list_ex is_price_create es1"
    "length (filter is_log_error es1) + length (products_inserted env products ?c)
       = length products"
    "length (filter is_product_create es1) = length (concat (map row_of_product products))"
    using seedProducts_trace [of env products ?c] by blast
  obtain es2 where es2: "trace ?w4 = trace ?w3 @ es2"
    "\<not> list_ex is_product_create es2"
    "length (filter is_log_error es2) + length (prices_inserted env prices ?w3) = length prices"
    "length (filter is_price_create es2) = length prices"
    using seedPrices_trace [of env prices ?w3] by blast
  obtain es3 where es3: "fst (sync env w) = emit es3 ?w4"
    "\<not> list_ex is_product_create es3" "\<not> list_ex is_price_create es3"
    "\<not> list_ex is_log_error es3"
    using sync_reached_world [OF assms, of w] by blast
  have "trace (fst (sync env w)) = trace w
      @ [NewPrismaClient, ConsoleLog ''Starting sync with Stripe'',
         StripeProductsList, StripePricesList, PriceDeleteMany, ProductDeleteMany]
      @ es1 @ es2 @ es3"
    using es1(1) es2(1) es3(1) by (simp add: emit_simps cleaned_def)
  then have "new_events w (fst (sync env w))
      = [NewPrismaClient, ConsoleLog ''Starting sync with Stripe'',
         StripeProductsList, StripePricesList, PriceDeleteMany, ProductDeleteMany]
        @ es1 @ es2 @ es3"
    by (simp add: new_events_def)
  then show ?thesis
    using es1(2,3,4) es2(2,3,4) es3(2,3,4) pi qi by metis
qed

text \<open>The sample run: its hypotheses hold, and which records it inserts.\<close>

lemma sample_reached:
  "truthy_string (STRIPE_SECRET_KEY env_sample)"
  "stripe_lists env_sample = Inr (sample_products, sample_prices)"
  "sample_products \<noteq> []" "sample_prices \<noteq> []"
  "price_deleteMany_error env_sample = None" "product_deleteMany_error env_sample = None"
  by (simp_all add: env_sample_def env_unique_def env_with_def sample_products_def
      sample_prices_def)

lemma sample_counts: "count_error env_sample = None"
  by (simp add: env_sample_def env_unique_def env_with_def)

lemma sample_rows:
  "map dbproduct_id (row_of_product prod_1) = [''prod_1'']"
  "map dbproduct_id (row_of_product prod_2) = [''prod_2'']"
  by (simp_all add: row_of_product_def stripeProduct_data_def prod_1_def prod_2_def)

lemma sample_insert_ok:
  "product_insert_ok env_sample v prod_1
     = (''prod_1'' \<notin> set (map dbproduct_id (stripeProduct v)))"
  "product_insert_ok env_sample v prod_2
     = (''prod_2'' \<notin> set (map dbproduct_id (stripeProduct v)))"
  "\<not> product_insert_ok env_sample v prod_no_images"
  "price_insert_ok env_sample v q"
  by (simp_all add: product_insert_ok_def price_insert_ok_def env_sample_def env_unique_def
      env_with_def stripeProduct_data_def prod_1_def prod_2_def prod_no_images_def)

lemma sample_products_inserted:
  "products_inserted env_sample sample_products empty_store = [prod_1, prod_2]"
  by (simp add: sample_products_def sample_insert_ok stripeProduct_seedProduct sample_rows
      empty_store_def)

lemma sample_prices_inserted:
  "prices_inserted env_sample sample_prices v = [price_1, price_free]"
  by (simp add: sample_prices_def sample_insert_ok)

text \<open>What the handlers print: the errors thrown, each once, in order.\<close>

lemma product_insert_ok_error:
  "product_insert_ok env w d = (product_insert_error env w d = None)"
  by (simp add: product_insert_ok_def product_insert_error_def split: sum.splits)

lemma price_insert_ok_error:
  "price_insert_ok env w d = (price_insert_error env w d = None)"
  by (simp add: price_insert_ok_def price_insert_error_def)

lemma seedProduct_logged:
  "\<exists>es. trace (seedProduct env d w) = trace w @ es
      \<and> filter is_log_error es
          = map ConsoleLogError
              (case product_insert_error env w d of None \<Rightarrow> [] | Some e \<Rightarrow> [e])"
  by (simp add: seedProduct_def product_insert_error_def Let_def emit_simps
      split: sum.splits option.splits)

lemma seedPrice_logged:
  "\<exists>es. trace (seedPrice env d w) = trace w @ es
      \<and> filter is_log_error es
          = map ConsoleLogError
              (case price_insert_error env w d of None \<Rightarrow> [] | Some e \<Rightarrow> [e])"
  by (simp add: seedPrice_def price_insert_error_def Let_def emit_simps split: option.splits)

lemma seedProducts_logged:
  "\<exists>es. trace (seedProducts env ds w) = trace w @ es
      \<and> filter is_log_error es = map ConsoleLogError (product_errors env ds w)"
proof (induction ds arbitrary: w)
  case Nil
  then show ?case by simp
next
  case (Cons d ds)
  obtain es1 where es1: "trace (seedProduct env d w) = trace w @ es1"
    "filter is_log_error es1
       = map ConsoleLogError
           (case product_insert_error env w d of None \<Rightarrow> [] | Some e \<Rightarrow> [e])"
    using seedProduct_logged [of env d w] by blast
  obtain es2 where es2: "trace (seedProducts env ds (seedProduct env d w))
        = trace (seedProduct env d w) @ es2"
    "filter is_log_error es2
       = map ConsoleLogError (product_errors env ds (seedProduct env d w))"
    using Cons.IH [of "seedProduct env d w"] by blast
  have "trace (seedProducts env (d # ds) w) = trace w @ (es1 @ es2)"
    using es1(1) es2(1) by simp
  moreover have "filter is_log_error (es1 @ es2)
      = map ConsoleLogError (product_errors env (d # ds) w)"
    using es1(2) es2(2) by simp
  ultimately show ?case by blast
qed

lemma seedPrices_logged:
  "\<exists>es. trace (seedPrices env ds w) = trace w @ es
      \<and> filter is_log_error es = map ConsoleLogError (price_errors env ds w)"
proof (induction ds arbitrary: w)
  case Nil
  then show ?case by simp
next
  case (Cons d ds)
  obtain es1 where es1: "trace (seedPrice env d w) = trace w @ es1"
    "filter is_log_error es1
       = map ConsoleLogError
           (case price_insert_error env w d of None \<Rightarrow> [] | Some e \<Rightarrow> [e])"
    using seedPrice_logged [of env d w] by blast
  obtain es2 where es2: "trace (seedPrices env ds (seedPrice env d w))
        = trace (seedPrice env d w) @ es2"
    "filter is_log_error es2
       = map ConsoleLogError (price_errors env ds (seedPrice env d w))"
    using Cons.IH [of "seedPrice env d w"] by blast
  have "trace (seedPrices env (d # ds) w) = trace w @ (es1 @ es2)"
    using es1(1) es2(1) by simp
  moreover have "filter is_log_error (es1 @ es2)
      = map ConsoleLogError (price_errors env (d # ds) w)"
    using es1(2) es2(2) by simp
  ultimately show ?case by blast
qed

lemma product_errors_tables:
  "stripeProduct w = stripeProduct w' \<Longrightarrow> stripePrice w = stripePrice w'
     \<Longrightarrow> product_errors env ds w = product_errors env ds w'"
proof (induction ds arbitrary: w w')
  case Nil
  then show ?case by simp
next
  case (Cons d ds)
  have err: "product_insert_error env w d = product_insert_error env w' d"
    using Cons.prems by (simp add: product_insert_error_def split: sum.splits)
  then have ok: "product_insert_ok env w d = product_insert_ok env w' d"
    by (simp add: product_insert_ok_error)
  have "stripeProduct (seedProduct env d w) = stripeProduct (seedProduct env d w')"
    using Cons.prems ok by (simp add: stripeProduct_seedProduct)
  moreover have "stripePrice (seedProduct env d w) = stripePrice (seedProduct env d w')"
    using Cons.prems by (simp add: stripePrice_seedProduct)
  ultimately have "product_errors env ds (seedProduct env d w)
      = product_errors env ds (seedProduct env d w')"
    by (rule Cons.IH)
  then show ?case using err by simp
qed

lemma price_errors_tables:
  "stripeProduct w = stripeProduct w' \<Longrightarrow> stripePrice w = stripePrice w'
     \<Longrightarrow> price_errors env ds w = price_errors env ds w'"
proof (induction ds arbitrary: w w')
  case Nil
  then show ?case by simp
next
  case (Cons d ds)
  have err: "price_insert_error env w d = price_insert_error env w' d"
    using Cons.prems by (simp add: price_insert_error_def)
  then have ok: "price_insert_ok env w d = price_insert_ok env w' d"
    by (simp add: price_insert_ok_error)
  have "stripeProduct (seedPrice env d w) = stripeProduct (seedPrice env d w')"
    using Cons.prems by (simp add: stripeProduct_seedPrice)
  moreover have "stripePrice (seedPrice env d w) = stripePrice (seedPrice env d w')"
    using Cons.prems ok by (simp add: stripePrice_seedPrice)
  ultimately have "price_errors env ds (seedPrice env d w)
      = price_errors env ds (seedPrice env d w')"
    by (rule Cons.IH)
  then show ?case using err by simp
qed

lemma no_event_filter: "\<not> list_ex P es \<Longrightarrow> filter P es = []"
  by (induction es) simp_all

lemma sync_reached_logged:
  assumes "truthy_string (STRIPE_SECRET_KEY env)"
    and "stripe_lists env = Inr (products, prices)"
    and "products \<noteq> []" and "prices \<noteq> []"
    and "price_deleteMany_error env = None" and "product_deleteMany_error env = None"
  shows "filter is_log_error (new_events w (fst (sync env w)))
    = map ConsoleLogError
        (product_errors env products empty_store
          @ price_errors env prices (seedProducts env products empty_store))"
proof -
  let ?c = "cleaned w"
  let ?w3 = "seedProducts env products ?c"
  let ?w4 = "seedPrices env prices ?w3"
  have c: "stripeProduct ?c = stripeProduct empty_store" "stripePrice ?c = stripePrice empty_store"
    by (simp_all add: cleaned_def empty_store_def)
  have pe: "product_errors env products ?c = product_errors env products empty_store"
    using c by (rule product_errors_tables)
  have pi: "products_inserted env products ?c = products_inserted env products empty_store"
    using c by (rule products_inserted_tables)
  have "stripeProduct ?w3 = stripeProduct (seedProducts env products empty_store)"
    using pi c by (simp add: stripeProduct_seedProducts)
  moreover have "stripePrice ?w3 = stripePrice (seedProducts env products empty_store)"
    using c by (simp add: stripePrice_seedProducts)
  ultimately have qe: "price_errors env prices ?w3
      = price_errors env prices (seedProducts env products empty_store)"
    by (rule price_errors_tables)
  obtain es1 where es1: "trace ?w3 = trace ?c @ es1"
    "filter is_log_error es1 = map ConsoleLogError (product_errors env products ?c)"
    using seedProducts_logged [of env products ?c] by blast
  obtain es2 where es2: "trace ?w4 = trace ?w3 @ es2"
    "filter is_log_error es2 = map ConsoleLogError (price_errors env prices ?w3)"
    using seedPrices_logged [of env prices ?w3] by blast
  obtain es3 where es3: "fst (sync env w) = emit es3 ?w4" "\<not> list_ex is_log_error es3"
    using sync_reached_world [OF assms, of w] by blast
  have "trace (fst (sync env w)) = trace w
      @ [NewPrismaClient, ConsoleLog ''Starting sync with Stripe'',
         StripeProductsList, StripePricesList, PriceDeleteMany, ProductDeleteMany]
      @ es1 @ es2 @ es3"
    using es1(1) es2(1) es3(1) by (simp add: emit_simps cleaned_def)
  then have "new_events w (fst (sync env w))
      = [NewPrismaClient, ConsoleLog ''Starting sync with Stripe'',
         StripeProductsList, StripePricesList, PriceDeleteMany, ProductDeleteMany]
        @ es1 @ es2 @ es3"
    by (simp add: new_events_def)
  then have "filter is_log_error (new_events w (fst (sync env w)))
      = filter is_log_error es1 @ filter is_log_error es2"
    using no_event_filter [OF es3(2)] by simp
  then show ?thesis
    using es1(2) es2(2) pe qe by simp
qed

lemma sample_errors:
  "product_errors env_sample sample_products empty_store
     = [TypeError ''Cannot read properties of undefined (reading 'length')'',
        PrismaError ''Unique constraint failed on the fields: (id)'']"
  "price_errors env_sample sample_prices v = []"
  by (simp_all add: sample_products_def sample_prices_def product_insert_error_def
      price_insert_error_def env_sample_def env_unique_def env_with_def stripeProduct_data_def
      prod_1_def prod_2_def prod_no_images_def seedProduct_def emit_def Let_def
      empty_store_def)

section \<open>Fatal conditions\<close>

text \<open>
  C1. When both list calls have returned and the price list is empty, the run fails with
  the error naming prices, also when the product list is empty too; when only the product
  list is empty it fails with the error naming products. In both cases no call reaches the
  store, the two tables are as they were, and the exit code is 1.
\<close>

theorem empty_list_aborts_untouched:
  assumes "truthy_string (STRIPE_SECRET_KEY env)"
    and "stripe_lists env = Inr (products, prices)"
    and "prices = [] \<or> products = []"
  shows "sync env w =
      (emit [NewPrismaClient, ConsoleLog ''Starting sync with Stripe'',
             StripeProductsList, StripePricesList,
             ConsoleError ''Error syncing with Stripe:''
               (Error (if prices = [] then ''No prices found on Stripe''
                       else ''No products found on Stripe''))] w, 1)
    \<and> tables (fst (sync env w)) = tables w
    \<and> \<not> list_ex is_store_call (new_events w (fst (sync env w)))
    \<and> snd (sync env w) = 1"
proof -
  have run: "sync env w =
      (emit [NewPrismaClient, ConsoleLog ''Starting sync with Stripe'',
             StripeProductsList, StripePricesList,
             ConsoleError ''Error syncing with Stripe:''
               (Error (if prices = [] then ''No prices found on Stripe''
                       else ''No products found on Stripe''))] w, 1)"
    using assms
    by (auto simp add: sync_def sync_try_def getStripeInstance_def Let_def emit_def)
  show ?thesis
    unfolding run by (simp add: tables_def new_events_def emit_simps)
qed

theorem empty_list_aborts_untouched_witness:
  "sync (env_with (Inr ([], []))) old_store =
      (emit [NewPrismaClient, ConsoleLog ''Starting sync with Stripe'',
             StripeProductsList, StripePricesList,
             ConsoleError ''Error syncing with Stripe:'' (Error ''No prices found on Stripe'')]
         old_store, 1)
   \<and> sync (env_with (Inr ([], [price_1]))) old_store =
      (emit [NewPrismaClient, ConsoleLog ''Starting sync with Stripe'',
             StripeProductsList, StripePricesList,
             ConsoleError ''Error syncing with Stripe:'' (Error ''No products found on Stripe'')]
         old_store, 1)
   \<and> tables (fst (sync (env_with (Inr ([], [price_1]))) old_store)) = tables old_store"
proof -
  have k: "truthy_string (STRIPE_SECRET_KEY (env_with fetched))" for fetched
    by (simp add: env_with_def)
  have l: "stripe_lists (env_with fetched) = fetched" for fetched
    by (simp add: env_with_def)
  have e1: "([]::price list) = [] \<or> ([]::product list) = []" by simp
  have e2: "[price_1] = [] \<or> ([]::product list) = []" by simp
  note both_empty = empty_list_aborts_untouched [OF k l e1, of old_store]
  note no_products = empty_list_aborts_untouched [OF k l e2, of old_store]
  have "sync (env_with (Inr ([], []))) old_store =
      (emit [NewPrismaClient, ConsoleLog ''Starting sync with Stripe'',
             StripeProductsList, StripePricesList,
             ConsoleError ''Error syncing with Stripe:'' (Error ''No prices found on Stripe'')]
         old_store, 1)"
    using both_empty [THEN conjunct1] by simp
  moreover have "sync (env_with (Inr ([], [price_1]))) old_store =
      (emit [NewPrismaClient, ConsoleLog ''Starting sync with Stripe'',
             StripeProductsList, StripePricesList,
             ConsoleError ''Error syncing with Stripe:'' (Error ''No products found on Stripe'')]
         old_store, 1)"
    using no_products [THEN conjunct1] by simp
  moreover have "tables (fst (sync (env_with (Inr ([], [price_1]))) old_store)) = tables old_store"
    using no_products by blast
  ultimately show ?thesis by blast
qed

text \<open>
  C2. When \<^verbatim>\<open>STRIPE_SECRET_KEY\<close> is absent from the environment, the run fails before
  either list call and before any call to the store: it prints the start line and the
  error, leaves both tables as they were, and exits with code 1.
\<close>

theorem missing_key_fatal_first:
  assumes "STRIPE_SECRET_KEY env = Undefined"
  shows "sync env w =
      (emit [NewPrismaClient, ConsoleLog ''Starting sync with Stripe'',
             ConsoleError ''Error syncing with Stripe:''
               (Error ''STRIPE_SECRET_KEY environment variable not set'')] w, 1)
    \<and> \<not> list_ex is_stripe_call (new_events w (fst (sync env w)))
    \<and> \<not> list_ex is_store_call (new_events w (fst (sync env w)))
    \<and> tables (fst (sync env w)) = tables w
    \<and> snd (sync env w) = 1"
proof -
  have run: "sync env w =
      (emit [NewPrismaClient, ConsoleLog ''Starting sync with Stripe'',
             ConsoleError ''Error syncing with Stripe:''
               (Error ''STRIPE_SECRET_KEY environment variable not set'')] w, 1)"
    using assms
    by (simp add: sync_def sync_try_def getStripeInstance_def Let_def emit_def)
  show ?thesis
    unfolding run by (simp add: tables_def new_events_def emit_simps)
qed

theorem missing_key_fatal_first_witness:
  "STRIPE_SECRET_KEY env_no_key = Undefined
   \<and> sync env_no_key old_store =
      (emit [NewPrismaClient, ConsoleLog ''Starting sync with Stripe'',
             ConsoleError ''Error syncing with Stripe:''
               (Error ''STRIPE_SECRET_KEY environment variable not set'')] old_store, 1)
   \<and> tables (fst (sync env_no_key old_store)) = tables old_store"
proof -
  have k: "STRIPE_SECRET_KEY env_no_key = Undefined"
    by (simp add: env_no_key_def)
  show ?thesis
    using k missing_key_fatal_first [OF k, of old_store] by blast
qed

section \<open>Field mapping\<close>

text \<open>
  C6. The row that an iteration of \<^verbatim>\<open>seedProducts\<close> adds to the product table has the
  provider's description, or the empty string when there is none; the names of the
  provider's feature objects; the first image, or the empty string when the image list is
  empty; and the date made from the provider's epoch seconds times 1000.
\<close>

theorem inserted_product_fields:
  assumes "stripeProduct (seedProduct env d w) = stripeProduct w @ [row]"
  shows "dbproduct_description row = (case product_description d of Val s \<Rightarrow> s | _ \<Rightarrow> '''')
    \<and> dbproduct_features row
        = (case product_features d of Val fs \<Rightarrow> map feature_name fs | _ \<Rightarrow> [])
    \<and> (\<exists>images. product_images d = Val images
          \<and> dbproduct_image row = (case images of [] \<Rightarrow> '''' | x # xs \<Rightarrow> x))
    \<and> dbproduct_created row = new_Date (product_created d * 1000)"
proof -
  have ok: "product_insert_ok env w d" and r: "row_of_product d = [row]"
    using assms by (auto simp add: stripeProduct_seedProduct split: if_splits)
  from r have data: "stripeProduct_data d = Inr row"
    using row_of_product_cases [of d] by auto
  then obtain images where im: "product_images d = Val images"
    by (cases "product_images d") (simp_all add: stripeProduct_data_def)
  have "dbproduct_description row = (case product_description d of Val s \<Rightarrow> s | _ \<Rightarrow> '''')"
    using data im
    by (cases "product_description d") (auto simp add: stripeProduct_data_def or_string_def)
  moreover have "dbproduct_features row
      = (case product_features d of Val fs \<Rightarrow> map feature_name fs | _ \<Rightarrow> [])"
    using data im
    by (cases "product_features d") (auto simp add: stripeProduct_data_def or_array_def)
  moreover have "dbproduct_image row = (case images of [] \<Rightarrow> '''' | x # xs \<Rightarrow> x)"
    using data im by (cases images) (auto simp add: stripeProduct_data_def)
  moreover have "dbproduct_created row = new_Date (product_created d * 1000)"
    using data im by (auto simp add: stripeProduct_data_def)
  ultimately show ?thesis using im by simp
qed

theorem inserted_product_fields_witness:
  "stripeProduct (seedProduct (env_with (Inr ([prod_2], [price_1]))) prod_2 old_store)
     = stripeProduct old_store
         @ [last (stripeProduct (seedProduct (env_with (Inr ([prod_2], [price_1]))) prod_2 old_store))]
   \<and> dbproduct_description
         (last (stripeProduct (seedProduct (env_with (Inr ([prod_2], [price_1]))) prod_2 old_store)))
       = ''Team plan''
   \<and> dbproduct_features
         (last (stripeProduct (seedProduct (env_with (Inr ([prod_2], [price_1]))) prod_2 old_store)))
       = [''SSO'', ''Audit logs'']
   \<and> dbproduct_image
         (last (stripeProduct (seedProduct (env_with (Inr ([prod_2], [price_1]))) prod_2 old_store)))
       = ''https://img/a.png''
   \<and> dbproduct_created
         (last (stripeProduct (seedProduct (env_with (Inr ([prod_2], [price_1]))) prod_2 old_store)))
       = Date 1700000001000"
proof -
  let ?w = "seedProduct (env_with (Inr ([prod_2], [price_1]))) prod_2 old_store"
  have h: "stripeProduct ?w = stripeProduct old_store @ [last (stripeProduct ?w)]"
    by (simp add: seedProduct_def stripeProduct_data_def prod_2_def env_with_def old_store_def
        emit_def)
  have "dbproduct_description (last (stripeProduct ?w)) = ''Team plan''"
    using inserted_product_fields [OF h] by (simp add: prod_2_def)
  moreover have "dbproduct_features (last (stripeProduct ?w)) = [''SSO'', ''Audit logs'']"
    using inserted_product_fields [OF h] by (simp add: prod_2_def)
  moreover have "dbproduct_image (last (stripeProduct ?w)) = ''https://img/a.png''"
    using inserted_product_fields [OF h] by (simp add: prod_2_def)
  moreover have "dbproduct_created (last (stripeProduct ?w)) = Date 1700000001000"
    using inserted_product_fields [OF h] by (simp add: prod_2_def new_Date_def)
  ultimately show ?thesis using h by blast
qed

text \<open>
  C7. A price whose \<^verbatim>\<open>unit_amount\<close> is the number 0 (a price that costs nothing) has a
  unit amount, whose string conversion is \<^verbatim>\<open>"0"\<close>; the row that \<^verbatim>\<open>seedPrices\<close> inserts for
  it has \<^verbatim>\<open>unitAmount\<close> null, next to \<^verbatim>\<open>unitAmountDecimal\<close> \<^verbatim>\<open>"0"\<close>: the test of the
  conditional is the truthiness of the number, and 0 is falsy.
\<close>

theorem zero_unit_amount_stored_null:
  "price_unit_amount price_free = Val 0
   \<and> Number_toString 0 = ''0''
   \<and> map dbprice_unitAmount
       (stripePrice (fst (sync (env_with (Inr ([prod_1], [price_free]))) empty_store))) = [Null]
   \<and> map dbprice_unitAmountDecimal
       (stripePrice (fst (sync (env_with (Inr ([prod_1], [price_free]))) empty_store))) = [Val ''0'']
   \<and> snd (sync (env_with (Inr ([prod_1], [price_free]))) empty_store) = 0"
proof -
  have "Number_toString 0 = ''0''"
    by (simp add: Number_toString_def string_of_nat.simps [of 0])
  moreover have "price_unit_amount price_free = Val 0"
    by (simp add: price_free_def)
  moreover have "sync (env_with (Inr ([prod_1], [price_free]))) empty_store
      = (emit [ProductCreate (projr (stripeProduct_data prod_1)),
               PriceCreate (stripePrice_data price_free),
               ProductCount, PriceCount,
               ConsoleLogNumber ''Products synced:'' 1, ConsoleLogNumber ''Prices synced:'' 1,
               ConsoleLog ''Sync completed successfully'']
          ((cleaned empty_store)
             \<lparr>stripeProduct := [projr (stripeProduct_data prod_1)],
              stripePrice := [stripePrice_data price_free]\<rparr>), 0)"
    by (simp add: sync_def sync_try_def getStripeInstance_def cleanup_def printStats_def
        seedProduct_def seedPrice_def env_with_def cleaned_def empty_store_def emit_def Let_def
        stripeProduct_data_def prod_1_def)
  ultimately show ?thesis
    by (simp add: emit_simps stripePrice_data_def price_free_def price_1_def)
qed

text \<open>
  What does hold for the two amounts: a value other than 0 is stored as its decimal string,
  and an absent value, \<^verbatim>\<open>null\<close> and 0 are all stored as null.
\<close>

lemma stored_amounts:
  "dbprice_unitAmount (stripePrice_data d)
     = (case price_unit_amount d of
          Val n \<Rightarrow> if n = 0 then Null else Val (Number_toString n) | _ \<Rightarrow> Null)
   \<and> dbprice_customUnitAmount (stripePrice_data d)
     = (case price_custom_unit_amount d of
          Val n \<Rightarrow> if n = 0 then Null else Val (Number_toString n) | _ \<Rightarrow> Null)"
  by (simp add: stripePrice_data_def split: opt.splits)

text \<open>
  C8. The row built for a fetched price never has \<^verbatim>\<open>tiersMode\<close> null: it is the string
  conversion of the provider's \<^verbatim>\<open>tiers_mode\<close> when there is one and the empty string
  otherwise. That row is what the \<^verbatim>\<open>create\<close> call is given and what the table receives.
\<close>

theorem tiersMode_never_null:
  "dbprice_tiersMode (stripePrice_data d)
     = Val (case price_tiers_mode d of Val s \<Rightarrow> String_toString s | _ \<Rightarrow> '''')
   \<and> dbprice_tiersMode (stripePrice_data d) \<noteq> Null
   \<and> PriceCreate (stripePrice_data d) \<in> set (new_events w (seedPrice env d w))
   \<and> (stripePrice (seedPrice env d w) = stripePrice w
        \<or> stripePrice (seedPrice env d w) = stripePrice w @ [stripePrice_data d])"
proof -
  have "dbprice_tiersMode (stripePrice_data d)
      = Val (case price_tiers_mode d of Val s \<Rightarrow> String_toString s | _ \<Rightarrow> '''')"
    by (cases "price_tiers_mode d") (simp_all add: stripePrice_data_def String_toString_def)
  moreover have "PriceCreate (stripePrice_data d) \<in> set (new_events w (seedPrice env d w))"
    by (simp add: new_events_def seedPrice_def Let_def emit_def split: option.splits)
  moreover have "stripePrice (seedPrice env d w) = stripePrice w
        \<or> stripePrice (seedPrice env d w) = stripePrice w @ [stripePrice_data d]"
    by (simp add: stripePrice_seedPrice)
  ultimately show ?thesis by simp
qed

section \<open>Records that cannot be inserted\<close>

text \<open>
  C9. A fetched product without \<^verbatim>\<open>images\<close> makes the evaluation of the row throw at
  \<^verbatim>\<open>data.images.length\<close>; the handler of the iteration prints the error, no \<^verbatim>\<open>create\<close>
  call is made and the tables stay as they are. A product without \<^verbatim>\<open>features\<close> but with
  an image list gives a row with the empty feature list; the \<^verbatim>\<open>create\<close> call is made, and
  the row is inserted when the store accepts it.
\<close>

theorem absent_images_skipped_absent_features_defaulted:
  "(product_images d = Undefined \<longrightarrow>
      seedProduct env d w =
        emit [ConsoleLogError
               (TypeError ''Cannot read properties of undefined (reading 'length')'')] w
      \<and> tables (seedProduct env d w) = tables w)
   \<and> (product_features d = Undefined \<and> product_images d = Val images \<longrightarrow>
        (\<exists>row. stripeProduct_data d = Inr row \<and> dbproduct_features row = []
           \<and> ProductCreate row \<in> set (new_events w (seedProduct env d w))
           \<and> (product_create_error env (stripeProduct w) (stripePrice w) row = None
                \<longrightarrow> stripeProduct (seedProduct env d w) = stripeProduct w @ [row])))"
proof -
  have "seedProduct env d w =
        emit [ConsoleLogError
               (TypeError ''Cannot read properties of undefined (reading 'length')'')] w
      \<and> tables (seedProduct env d w) = tables w"
    if "product_images d = Undefined"
    using that by (simp add: seedProduct_def stripeProduct_data_def tables_def emit_simps)
  moreover have "\<exists>row. stripeProduct_data d = Inr row \<and> dbproduct_features row = []
           \<and> ProductCreate row \<in> set (new_events w (seedProduct env d w))
           \<and> (product_create_error env (stripeProduct w) (stripePrice w) row = None
                \<longrightarrow> stripeProduct (seedProduct env d w) = stripeProduct w @ [row])"
    if "product_features d = Undefined" and "product_images d = Val images"
    using that
    by (simp add: seedProduct_def stripeProduct_data_def or_array_def new_events_def Let_def
        emit_def split: option.splits)
  ultimately show ?thesis by blast
qed

theorem absent_images_skipped_absent_features_defaulted_witness:
  "product_images prod_no_images = Undefined
   \<and> tables (seedProduct (env_with (Inr ([prod_no_images], [price_1]))) prod_no_images old_store)
       = tables old_store
   \<and> product_features prod_no_features = Undefined
   \<and> product_images prod_no_features = Val [''https://img/c.png'']
   \<and> (\<exists>row. stripeProduct_data prod_no_features = Inr row \<and> dbproduct_features row = []
         \<and> stripeProduct
             (seedProduct (env_with (Inr ([prod_no_features], [price_1]))) prod_no_features old_store)
           = stripeProduct old_store @ [row])"
proof -
  have a: "product_images prod_no_images = Undefined"
    by (simp add: prod_no_images_def)
  have b: "product_features prod_no_features = Undefined
      \<and> product_images prod_no_features = Val [''https://img/c.png'']"
    by (simp add: prod_no_features_def prod_1_def)
  have c: "product_create_error (env_with fetched) ps qs row = None" for fetched ps qs row
    by (simp add: env_with_def)
  note skipped = absent_images_skipped_absent_features_defaulted
    [where d = prod_no_images and env = "env_with (Inr ([prod_no_images], [price_1]))"
      and w = old_store, THEN conjunct1, rule_format, OF a]
  note defaulted = absent_images_skipped_absent_features_defaulted
    [where d = prod_no_features and images = "[''https://img/c.png'']"
      and env = "env_with (Inr ([prod_no_features], [price_1]))" and w = old_store,
      THEN conjunct2, rule_format, OF b]
  from defaulted obtain row where row: "stripeProduct_data prod_no_features = Inr row"
    "dbproduct_features row = []"
    "product_create_error (env_with (Inr ([prod_no_features], [price_1])))
        (stripeProduct old_store) (stripePrice old_store) row = None
      \<longrightarrow> stripeProduct
            (seedProduct (env_with (Inr ([prod_no_features], [price_1]))) prod_no_features old_store)
          = stripeProduct old_store @ [row]"
    by (elim exE conjE)
  from row(3) have ins: "stripeProduct
        (seedProduct (env_with (Inr ([prod_no_features], [price_1]))) prod_no_features old_store)
      = stripeProduct old_store @ [row]"
    by (simp add: c)
  have "\<exists>row. stripeProduct_data prod_no_features = Inr row \<and> dbproduct_features row = []
         \<and> stripeProduct
             (seedProduct (env_with (Inr ([prod_no_features], [price_1]))) prod_no_features old_store)
           = stripeProduct old_store @ [row]"
    using row(1,2) ins by (intro exI conjI)
  then show ?thesis
    using a b skipped [THEN conjunct2] by (intro conjI) simp_all
qed

text \<open>
  C4, as stated, fails in its last part: the exit code is 0 only if the count queries of
  \<^verbatim>\<open>printStats\<close> return. Here the second copy of a product is refused by the store; the
  error is caught and printed, the record is skipped and the price after it is inserted;
  then the count queries are rejected, and the run exits with code 1.
\<close>

theorem skipped_insertion_then_rejected_count_exits_1:
  "truthy_string (STRIPE_SECRET_KEY env_count_rejected)
   \<and> stripe_lists env_count_rejected = Inr ([prod_1, prod_1], [price_1])
   \<and> price_deleteMany_error env_count_rejected = None
   \<and> product_deleteMany_error env_count_rejected = None
   \<and> filter is_log_error (new_events old_store (fst (sync env_count_rejected old_store)))
       = [ConsoleLogError (PrismaError ''Unique constraint failed on the fields: (id)'')]
   \<and> map dbproduct_id (stripeProduct (fst (sync env_count_rejected old_store))) = [''prod_1'']
   \<and> map dbprice_id (stripePrice (fst (sync env_count_rejected old_store))) = [''price_1'']
   \<and> snd (sync env_count_rejected old_store) = 1"
proof -
  obtain row where row: "stripeProduct_data prod_1 = Inr row" "dbproduct_id row = ''prod_1''"
    by (simp add: stripeProduct_data_def prod_1_def)
  have run: "sync env_count_rejected old_store
      = (emit [ProductCreate row, ProductCreate row,
               ConsoleLogError (PrismaError ''Unique constraint failed on the fields: (id)''),
               PriceCreate (stripePrice_data price_1),
               ProductCount, PriceCount,
               ConsoleError ''Error syncing with Stripe:''
                 (PrismaError ''Can not reach database server'')]
          ((cleaned old_store)
             \<lparr>stripeProduct := [row], stripePrice := [stripePrice_data price_1]\<rparr>), 1)"
    by (simp add: sync_def sync_try_def getStripeInstance_def cleanup_def printStats_def
        seedProduct_def seedPrice_def env_count_rejected_def env_unique_def env_with_def
        cleaned_def old_store_def emit_def Let_def row)
  have "truthy_string (STRIPE_SECRET_KEY env_count_rejected)
      \<and> stripe_lists env_count_rejected = Inr ([prod_1, prod_1], [price_1])
      \<and> price_deleteMany_error env_count_rejected = None
      \<and> product_deleteMany_error env_count_rejected = None"
    by (simp add: env_count_rejected_def env_unique_def env_with_def)
  moreover have "filter is_log_error
        (new_events old_store (fst (sync env_count_rejected old_store)))
      = [ConsoleLogError (PrismaError ''Unique constraint failed on the fields: (id)'')]"
    unfolding run by (simp add: new_events_def emit_simps cleaned_def)
  moreover have "map dbproduct_id (stripeProduct (fst (sync env_count_rejected old_store)))
      = [''prod_1'']"
    unfolding run by (simp add: emit_simps row(2))
  moreover have "map dbprice_id (stripePrice (fst (sync env_count_rejected old_store)))
      = [''price_1'']"
    unfolding run by (simp add: emit_simps stripePrice_data_def price_1_def)
  moreover have "snd (sync env_count_rejected old_store) = 1"
    unfolding run by simp
  ultimately show ?thesis by simp
qed

text \<open>
  C4, amended. In a run that reaches the insertion phase, every record whose insertion
  throws has its error caught and printed by its handler, the errors printed being the
  errors thrown, each once and in order, and adds no row; every other record adds its row,
  so the loops went on past each failure; a \<^verbatim>\<open>create\<close> call is made for every fetched
  price, and for every fetched product whose row could be evaluated. Whatever the
  insertions do, the run then exits with code 0 when the count queries of \<^verbatim>\<open>printStats\<close>
  return, and with code 1 when they throw.
\<close>

theorem insertion_errors_skipped_run_completes:
  assumes "truthy_string (STRIPE_SECRET_KEY env)"
    and "stripe_lists env = Inr (products, prices)"
    and "products \<noteq> []" and "prices \<noteq> []"
    and "price_deleteMany_error env = None" and "product_deleteMany_error env = None"
  shows "snd (sync env w) = (case count_error env of None \<Rightarrow> 0 | Some e \<Rightarrow> 1)
    \<and> filter is_log_error (new_events w (fst (sync env w)))
        = map ConsoleLogError
            (product_errors env products empty_store
              @ price_errors env prices (seedProducts env products empty_store))
    \<and> length (filter is_log_error (new_events w (fst (sync env w))))
        + length (products_inserted env products empty_store)
        + length (prices_inserted env prices (seedProducts env products empty_store))
        = length products + length prices
    \<and> stripeProduct (fst (sync env w))
        = concat (map row_of_product (products_inserted env products empty_store))
    \<and> stripePrice (fst (sync env w))
        = map stripePrice_data
            (prices_inserted env prices (seedProducts env products empty_store))
    \<and> length (filter is_price_create (new_events w (fst (sync env w)))) = length prices
    \<and> length (filter is_product_create (new_events w (fst (sync env w))))
        = length (concat (map row_of_product products))"
proof -
  note reached = assms
  have code: "snd (sync env w) = (case count_error env of None \<Rightarrow> 0 | Some e \<Rightarrow> 1)"
    using sync_reached [OF reached, of w]
    by (cases "count_error env") (simp_all add: Let_def)
  obtain es1 es2 es3 where ev: "new_events w (fst (sync env w))
        = [NewPrismaClient, ConsoleLog ''Starting sync with Stripe'',
           StripeProductsList, StripePricesList, PriceDeleteMany, ProductDeleteMany]
          @ es1 @ es2 @ es3"
    and es1: "\<not> list_ex is_price_create es1"
      "length (filter is_log_error es1)
         + length (products_inserted env products empty_store) = length products"
      "length (filter is_product_create es1) = length (concat (map row_of_product products))"
    and es2: "\<not> list_ex is_product_create es2"
      "length (filter is_log_error es2)
         + length (prices_inserted env prices (seedProducts env products empty_store))
         = length prices"
      "length (filter is_price_create es2) = length prices"
    and es3: "\<not> list_ex is_product_create es3" "\<not> list_ex is_price_create es3"
      "\<not> list_ex is_log_error es3"
    using sync_reached_events [OF reached, of w] by blast
  have logged: "length (filter is_log_error (new_events w (fst (sync env w))))
      = length (filter is_log_error es1) + length (filter is_log_error es2)"
    unfolding ev using no_event_filter [OF es3(3)] by simp
  have prices_called: "length (filter is_price_create (new_events w (fst (sync env w))))
      = length prices"
    unfolding ev using no_event_filter [OF es1(1)] no_event_filter [OF es3(2)] es2(3) by simp
  have products_called: "length (filter is_product_create (new_events w (fst (sync env w))))
      = length (concat (map row_of_product products))"
    unfolding ev using no_event_filter [OF es2(1)] no_event_filter [OF es3(1)] es1(3) by simp
  have count: "length (filter is_log_error (new_events w (fst (sync env w))))
        + length (products_inserted env products empty_store)
        + length (prices_inserted env prices (seedProducts env products empty_store))
        = length products + length prices"
    using logged es1(2) es2(2) by linarith
  note printed = sync_reached_logged [OF reached, of w]
  note stored = sync_tables [OF reached, of w]
  show ?thesis
    using code printed count stored prices_called products_called
    by (intro conjI) (elim conjE, assumption)+
qed

theorem insertion_errors_skipped_run_completes_witness:
  "count_error env_sample = None
   \<and> snd (sync env_sample old_store) = 0
   \<and> filter is_log_error (new_events old_store (fst (sync env_sample old_store)))
       = [ConsoleLogError (TypeError ''Cannot read properties of undefined (reading 'length')''),
          ConsoleLogError (PrismaError ''Unique constraint failed on the fields: (id)'')]
   \<and> map dbproduct_id (stripeProduct (fst (sync env_sample old_store)))
       = [''prod_1'', ''prod_2'']
   \<and> map dbprice_id (stripePrice (fst (sync env_sample old_store)))
       = [''price_1'', ''price_free'']"
proof -
  note run = insertion_errors_skipped_run_completes [OF sample_reached, of old_store]
  note run' = run [unfolded sample_products_inserted sample_prices_inserted sample_errors]
  have "snd (sync env_sample old_store) = 0"
    using run [THEN conjunct1] by (simp add: sample_counts)
  moreover have "filter is_log_error (new_events old_store (fst (sync env_sample old_store)))
      = [ConsoleLogError (TypeError ''Cannot read properties of undefined (reading 'length')''),
         ConsoleLogError (PrismaError ''Unique constraint failed on the fields: (id)'')]"
    using run' [THEN conjunct2, THEN conjunct1] by simp
  moreover have "map dbproduct_id (stripeProduct (fst (sync env_sample old_store)))
      = [''prod_1'', ''prod_2'']"
    using run' [THEN conjunct2, THEN conjunct2, THEN conjunct2, THEN conjunct1]
    by (simp add: sample_rows)
  moreover have "map dbprice_id (stripePrice (fst (sync env_sample old_store)))
      = [''price_1'', ''price_free'']"
    using run' [THEN conjunct2, THEN conjunct2, THEN conjunct2, THEN conjunct2, THEN conjunct1]
    by (simp add: stripePrice_data_def price_1_def price_free_def)
  ultimately show ?thesis using sample_counts by simp
qed

section \<open>Order of insertion and references\<close>

text \<open>
  C3, as stated, fails: a fetched product whose insertion errors is skipped, and a price
  that names it is inserted all the same by a store that does not check the reference.
  Here the only fetched product has no \<^verbatim>\<open>images\<close>; the run exits with code 0, the price
  table holds the price and the product table is empty.
\<close>

theorem skipped_product_leaves_unreferenced_price:
  "snd (sync (env_with (Inr ([prod_no_images], [price_1]))) empty_store) = 0
   \<and> price_product price_1 \<in> set (map product_id [prod_no_images])
   \<and> map dbprice_productId
        (stripePrice (fst (sync (env_with (Inr ([prod_no_images], [price_1]))) empty_store)))
       = [''prod_1'']
   \<and> stripeProduct (fst (sync (env_with (Inr ([prod_no_images], [price_1]))) empty_store)) = []
   \<and> \<not> price_refs_inserted [prod_no_images]
         (fst (sync (env_with (Inr ([prod_no_images], [price_1]))) empty_store))"
proof -
  have run: "sync (env_with (Inr ([prod_no_images], [price_1]))) empty_store
      = (emit [ConsoleLogError
                 (TypeError ''Cannot read properties of undefined (reading 'length')''),
               PriceCreate (stripePrice_data price_1),
               ProductCount, PriceCount,
               ConsoleLogNumber ''Products synced:'' 0, ConsoleLogNumber ''Prices synced:'' 1,
               ConsoleLog ''Sync completed successfully'']
          ((cleaned empty_store) \<lparr>stripePrice := [stripePrice_data price_1]\<rparr>), 0)"
    by (simp add: sync_def sync_try_def getStripeInstance_def cleanup_def printStats_def
        seedProduct_def seedPrice_def env_with_def cleaned_def empty_store_def emit_def Let_def
        stripeProduct_data_def prod_no_images_def)
  show ?thesis
    unfolding run
    by (simp add: price_refs_inserted_def emit_simps cleaned_def empty_store_def
        stripePrice_data_def price_1_def prod_no_images_def prod_1_def)
qed

text \<open>
  C3, amended. In a run that reaches the insertion phase no product is created once a
  price has been created, so every attempt to insert a product comes before every price;
  and every inserted price names an inserted product row whenever the name is the
  identifier of a fetched product whose own insertion did not error.
\<close>

theorem products_attempted_before_prices:
  assumes "truthy_string (STRIPE_SECRET_KEY env)"
    and "stripe_lists env = Inr (products, prices)"
    and "products \<noteq> []" and "prices \<noteq> []"
    and "price_deleteMany_error env = None" and "product_deleteMany_error env = None"
  shows "products_before_prices (new_events w (fst (sync env w)))
    \<and> price_refs_inserted (products_inserted env products empty_store) (fst (sync env w))"
proof -
  obtain es1 es2 es3 where ev: "new_events w (fst (sync env w))
        = [NewPrismaClient, ConsoleLog ''Starting sync with Stripe'',
           StripeProductsList, StripePricesList, PriceDeleteMany, ProductDeleteMany]
          @ es1 @ es2 @ es3"
    and no: "\<not> list_ex is_price_create es1" "\<not> list_ex is_product_create es2"
      "\<not> list_ex is_product_create es3"
    using sync_reached_events [OF assms, of w] by blast
  have "\<not> list_ex is_product_create (es2 @ es3)"
    using no(2,3) by simp
  then have "products_before_prices (es2 @ es3)"
    by (rule products_before_prices_no_product)
  then have "products_before_prices (es1 @ es2 @ es3)"
    using products_before_prices_append [OF no(1)] by simp
  then have order: "products_before_prices (new_events w (fst (sync env w)))"
    unfolding ev by simp
  have "map dbproduct_id (stripeProduct (fst (sync env w)))
      = map product_id (products_inserted env products empty_store)"
  proof -
    have "\<forall>d \<in> set (products_inserted env products empty_store).
        \<exists>row. stripeProduct_data d = Inr row"
      using products_inserted_ok by blast
    then have "map dbproduct_id
          (concat (map row_of_product (products_inserted env products empty_store)))
        = map product_id (products_inserted env products empty_store)"
      by (rule inserted_rows_ids)
    then show ?thesis
      using sync_tables [OF assms, of w] by simp
  qed
  then have "price_refs_inserted (products_inserted env products empty_store) (fst (sync env w))"
    by (simp add: price_refs_inserted_def list_all_iff)
  with order show ?thesis by simp
qed

theorem products_attempted_before_prices_witness:
  "products_before_prices (new_events old_store (fst (sync env_sample old_store)))
   \<and> price_refs_inserted [prod_1, prod_2] (fst (sync env_sample old_store))
   \<and> map dbprice_productId (stripePrice (fst (sync env_sample old_store)))
       = [''prod_1'', ''prod_1'']"
proof -
  note run = products_attempted_before_prices [OF sample_reached, of old_store]
  have "map dbprice_productId (stripePrice (fst (sync env_sample old_store)))
      = [''prod_1'', ''prod_1'']"
    using sync_tables [OF sample_reached, of old_store]
    by (simp add: sample_prices_inserted stripePrice_data_def price_1_def price_free_def)
  then show ?thesis
    using run [unfolded sample_products_inserted] by simp
qed

section \<open>Reported counts\<close>

text \<open>
  C5. For non-empty fetched lists, when the run completes (the two \<^verbatim>\<open>deleteMany\<close> calls
  and the count queries return), the last lines printed are the product count, equal to
  the number of fetched products whose insertion did not error, the price count, equal to
  the number of fetched prices whose insertion did not error, and the completion line; the
  exit code is 0.
\<close>

theorem reported_counts_are_successful_insertions:
  assumes "truthy_string (STRIPE_SECRET_KEY env)"
    and "stripe_lists env = Inr (products, prices)"
    and "products \<noteq> []" and "prices \<noteq> []"
    and "price_deleteMany_error env = None" and "product_deleteMany_error env = None"
    and "count_error env = None"
  shows "(\<exists>before. trace (fst (sync env w)) = before @
        [ConsoleLogNumber ''Products synced:''
           (length (products_inserted env products empty_store)),
         ConsoleLogNumber ''Prices synced:''
           (length (prices_inserted env prices (seedProducts env products empty_store))),
         ConsoleLog ''Sync completed successfully''])
    \<and> snd (sync env w) = 0"
proof -
  note reached = assms(1-6)
  let ?w4 = "seedPrices env prices (seedProducts env products (cleaned w))"
  have run: "sync env w =
      (emit [ProductCount, PriceCount,
             ConsoleLogNumber ''Products synced:'' (length (stripeProduct ?w4)),
             ConsoleLogNumber ''Prices synced:'' (length (stripePrice ?w4)),
             ConsoleLog ''Sync completed successfully''] ?w4, 0)"
    using sync_reached [OF reached, of w] assms(7) by (simp add: Let_def)
  have n: "length (stripeProduct ?w4) = length (products_inserted env products empty_store)"
    using inserted_tables [of env prices products w]
    by (simp add: inserted_rows_length)
  have m: "length (stripePrice ?w4)
      = length (prices_inserted env prices (seedProducts env products empty_store))"
    using inserted_tables [of env prices products w] by simp
  have tr: "trace (fst (sync env w)) = trace ?w4 @
        [ProductCount, PriceCount,
         ConsoleLogNumber ''Products synced:'' (length (stripeProduct ?w4)),
         ConsoleLogNumber ''Prices synced:'' (length (stripePrice ?w4)),
         ConsoleLog ''Sync completed successfully'']"
    by (simp add: run emit_simps)
  have "trace (fst (sync env w)) = (trace ?w4 @ [ProductCount, PriceCount]) @
        [ConsoleLogNumber ''Products synced:''
           (length (products_inserted env products empty_store)),
         ConsoleLogNumber ''Prices synced:''
           (length (prices_inserted env prices (seedProducts env products empty_store))),
         ConsoleLog ''Sync completed successfully'']"
    using tr n m by simp
  then have "\<exists>before. trace (fst (sync env w)) = before @
        [ConsoleLogNumber ''Products synced:''
           (length (products_inserted env products empty_store)),
         ConsoleLogNumber ''Prices synced:''
           (length (prices_inserted env prices (seedProducts env products empty_store))),
         ConsoleLog ''Sync completed successfully'']"
    by blast
  moreover have "snd (sync env w) = 0"
    by (simp add: run)
  ultimately show ?thesis by simp
qed

theorem reported_counts_are_successful_insertions_witness:
  "length sample_products = 4 \<and> length sample_prices = 2
   \<and> (\<exists>before. trace (fst (sync env_sample old_store)) = before @
        [ConsoleLogNumber ''Products synced:'' 2, ConsoleLogNumber ''Prices synced:'' 2,
         ConsoleLog ''Sync completed successfully''])
   \<and> snd (sync env_sample old_store) = 0"
proof -
  have two: "length [prod_1, prod_2] = 2" "length [price_1, price_free] = 2"
    by simp_all
  note run = reported_counts_are_successful_insertions
    [OF sample_reached sample_counts, of old_store,
      unfolded sample_products_inserted sample_prices_inserted two]
  have "length sample_products = 4 \<and> length sample_prices = 2"
    by (simp add: sample_products_def sample_prices_def)
  then show ?thesis using run by (intro conjI) (elim conjE, assumption)+
qed

section \<open>Independence of the prior contents\<close>

text \<open>
  C10. For fetched non-empty lists and a store whose \<^verbatim>\<open>deleteMany\<close> calls return and whose
  \<^verbatim>\<open>create\<close> outcomes are determined by the row and the rows present, the contents of the
  two tables after a run are the same from any two initial worlds; running the sync on the
  result of a run gives the contents of the one run.
\<close>

theorem final_tables_independent_of_prior_contents:
  assumes "truthy_string (STRIPE_SECRET_KEY env)"
    and "stripe_lists env = Inr (products, prices)"
    and "products \<noteq> []" and "prices \<noteq> []"
    and "price_deleteMany_error env = None" and "product_deleteMany_error env = None"
  shows "tables (fst (sync env w1)) = tables (fst (sync env w2))
    \<and> tables (fst (sync env (fst (sync env w)))) = tables (fst (sync env w))"
  using sync_tables [OF assms, of w1] sync_tables [OF assms, of w2]
    sync_tables [OF assms, of w] sync_tables [OF assms, of "fst (sync env w)"]
  by (simp add: tables_def)

theorem final_tables_independent_of_prior_contents_witness:
  "tables old_store \<noteq> tables empty_store
   \<and> tables (fst (sync env_sample old_store)) = tables (fst (sync env_sample empty_store))
   \<and> tables (fst (sync env_sample (fst (sync env_sample old_store))))
       = tables (fst (sync env_sample old_store))
   \<and> map dbproduct_id (fst (tables (fst (sync env_sample old_store)))) = [''prod_1'', ''prod_2'']"
proof -
  note run = final_tables_independent_of_prior_contents
    [OF sample_reached, of old_store empty_store old_store]
  have "tables old_store \<noteq> tables empty_store"
    by (simp add: tables_def old_store_def empty_store_def)
  moreover have "map dbproduct_id (fst (tables (fst (sync env_sample old_store))))
      = [''prod_1'', ''prod_2'']"
    using sync_tables [OF sample_reached, of old_store]
    by (simp add: tables_def sample_products_inserted sample_rows)
  ultimately show ?thesis using run by simp
qed

end
